theory Spec2Isabelle
  imports Complex_Main
begin

section \<open>The Agilent 34410A multimeter driver (ivi/agilent/agilent34410A.py)\<close>

subsection \<open>Python values, exceptions and builtins\<close>

text \<open>
  The values that reach the driver's methods. A Python float is represented by the real
  number it denotes; no arithmetic is done on floats anywhere in the driver.
\<close>

datatype pyval = PyNone | PyBool bool | PyInt int | PyFloat real | PyStr string

text \<open>
  What a global name of the module can be bound to: an imported module, a dictionary of
  strings or a class.
\<close>

datatype pyobj = Module string | Dict "(string \<times> string) list" | Class string

text \<open>
  The exceptions. \<open>ValueNotSupportedException\<close> and \<open>OutOfRangeException\<close> are the classes
  of the package's \<open>ivi\<close> module; \<open>DeviceResponseError\<close> is the error kind of section 7 of
  the specification, which no statement of the driver raises; \<open>TransportError\<close> is the
  failure of the I/O session. \<open>Raised obj\<close> is the result of \<open>raise obj()\<close> for a bound
  global.
\<close>

datatype pyerr =
    NameError string
  | IndexError
  | AttributeError
  | KeyError
  | TypeError
  | ValueError
  | ValueNotSupportedException
  | OutOfRangeException
  | DeviceResponseError
  | TransportError
  | Raised pyobj

text \<open>
  The conversions \<open>float(x)\<close>, \<open>int(x)\<close> and \<open>str(x)\<close> are builtins of the interpreter, not
  code of the driver: the driver's functions take them as a parameter. \<open>bool(x)\<close> is
  the truth value of \<open>x\<close>.
\<close>

record builtins =
  py_float :: "pyval \<Rightarrow> pyerr + real"
  py_int :: "pyval \<Rightarrow> pyerr + int"
  py_str :: "pyval \<Rightarrow> string"

fun py_bool :: "pyval \<Rightarrow> bool" where
  "py_bool PyNone = False"
| "py_bool (PyBool b) = b"
| "py_bool (PyInt i) = (i \<noteq> 0)"
| "py_bool (PyFloat r) = (r \<noteq> 0)"
| "py_bool (PyStr s) = (s \<noteq> [])"

subsection \<open>String operations used by the driver\<close>

definition dquote :: char where
  "dquote = CHR 0x22"

text \<open>\<open>s.split(sep)\<close> for a one-character separator: never an empty list.\<close>

fun split :: "char \<Rightarrow> string \<Rightarrow> string list" where
  "split sep [] = [[]]"
| "split sep (c # cs) =
     (if c = sep then [] # split sep cs
      else (case split sep cs of [] \<Rightarrow> [[c]] | w # ws \<Rightarrow> (c # w) # ws))"

text \<open>\<open>s.strip(chars)\<close>: drops the characters of \<open>chars\<close> from both ends.\<close>

definition strip :: "string \<Rightarrow> string \<Rightarrow> string" where
  "strip chars s =
     rev (dropWhile (\<lambda>c. c \<in> set chars) (rev (dropWhile (\<lambda>c. c \<in> set chars) s)))"

text \<open>\<open>s.lower()\<close> on ASCII text.\<close>

definition lower_char :: "char \<Rightarrow> char" where
  "lower_char c =
     (let n = (of_char c :: nat) in if 65 \<le> n \<and> n \<le> 90 then char_of (n + 32) else c)"

definition lower :: "string \<Rightarrow> string" where
  "lower s = map lower_char s"

text \<open>\<open>"%d" % i\<close> for an integer \<open>i\<close>.\<close>

fun digits :: "nat \<Rightarrow> string" where
  "digits n =
     (if n < 10 then [char_of (48 + n)]
      else digits (n div 10) @ [char_of (48 + n mod 10)])"

declare digits.simps [simp del]

definition fmt_d :: "int \<Rightarrow> string" where
  "fmt_d i = (if i < 0 then CHR ''-'' # digits (nat (- i)) else digits (nat i))"

text \<open>\<open>lst[i]\<close> for \<open>i \<ge> 0\<close>: IndexError past the end.\<close>

definition index :: "'a list \<Rightarrow> nat \<Rightarrow> pyerr + 'a" where
  "index lst i = (if i < length lst then Inr (lst ! i) else Inl IndexError)"

subsection \<open>The module's global names\<close>

definition MeasurementFunctionMapping :: "(string \<times> string) list" where
  "MeasurementFunctionMapping =
     [(''dc_volts'', ''volt''),
      (''ac_volts'', ''volt:ac''),
      (''dc_current'', ''curr''),
      (''ac_current'', ''curr:ac''),
      (''two_wire_resistance'', ''res''),
      (''four_wire_resistance'', ''fres''),
      (''frequency'', ''freq''),
      (''period'', ''per''),
      (''temperature'', ''temp''),
      (''capacitance'', ''cap''),
      (''continuity'', ''cont''),
      (''diode'', ''diod'')]"

text \<open>
  The names bound at module level, in the order of the file: the four imports (lines
  27 to 31), the table (line 33) and the class (line 49). A method's reference to a bare
  name that is neither a local nor one of these (nor a builtin; none of the names the
  driver uses is one) raises NameError.
\<close>

definition module_globals :: "(string \<times> pyobj) list" where
  "module_globals =
     [(''time'', Module ''time''),
      (''struct'', Module ''struct''),
      (''ivi'', Module ''ivi''),
      (''dmm'', Module ''dmm''),
      (''MeasurementFunctionMapping'', Dict MeasurementFunctionMapping),
      (''agilent34410A'', Class ''agilent34410A'')]"

definition load_global :: "string \<Rightarrow> pyerr + pyobj" where
  "load_global name =
     (case map_of module_globals name of
        None \<Rightarrow> Inl (NameError name)
      | Some obj \<Rightarrow> Inr obj)"

text \<open>\<open>value in d\<close> and \<open>d[value]\<close> for a dictionary with string keys.\<close>

fun dict_get :: "(string \<times> string) list \<Rightarrow> pyval \<Rightarrow> string option" where
  "dict_get d (PyStr k) = map_of d k"
| "dict_get d v = None"

subsection \<open>The driver's state\<close>

text \<open>
  What the driver does to the outside: a command written, a query asked, a response
  read, and \<open>time.sleep\<close>.
\<close>

datatype event = Write string | Ask string | Read | Sleep nat

text \<open>
  The instance attributes the driver's methods use, the validity flag of each cached
  attribute, the trace of events so far, the responses the instrument will give to the
  coming reads, and whether the I/O session accepts a write.
\<close>

record driver =
  driver_operation_simulate :: bool
  memory_size :: int
  identity_instrument_manufacturer :: string
  identity_instrument_model :: string
  identity_instrument_firmware_revision :: string
  measurement_function :: pyval
  range_attr :: pyval
  auto_range :: pyval
  resolution :: pyval
  trigger_delay :: pyval
  trigger_delay_auto :: pyval
  trigger_source :: pyval
  cache_valid :: "string \<Rightarrow> bool"
  trace :: "event list"
  replies :: "string list"
  write_ok :: bool

type_synonym 'a result = "(pyerr + 'a) \<times> driver"

fun is_transport :: "event \<Rightarrow> bool" where
  "is_transport (Sleep n) = False"
| "is_transport e = True"

definition transport_calls :: "driver \<Rightarrow> nat" where
  "transport_calls s = length (filter is_transport (trace s))"

fun is_write :: "event \<Rightarrow> bool" where
  "is_write (Write c) = True"
| "is_write e = False"

definition transport_writes :: "driver \<Rightarrow> nat" where
  "transport_writes s = length (filter is_write (trace s))"

text \<open>
  The methods \<open>_write\<close>, \<open>_ask\<close> and \<open>_read\<close> (the transport) and \<open>_get_cache_valid\<close>,
  \<open>_set_cache_valid\<close> and \<open>driver_operation.invalidate_all_attributes\<close> (the validity flags)
  belong to the base class \<open>ivi.Driver\<close>, which is not part of the file. The six definitions
  below stand for them.
\<close>

text \<open>
  Modelled from the spec: \<open>_write\<close>, the write of the Transport Adapter (section 6): it
  sends a command and expects no response; on I/O failure it fails with \<open>TransportError\<close>.
  The attempt is part of the trace either way.
\<close>

definition io_write :: "string \<Rightarrow> driver \<Rightarrow> unit result" where
  "io_write cmd s =
     (if write_ok s then (Inr (), s\<lparr>trace := trace s @ [Write cmd]\<rparr>)
      else (Inl TransportError, s\<lparr>trace := trace s @ [Write cmd]\<rparr>))"

text \<open>
  Modelled from the spec: \<open>_ask\<close>, the ask of the Transport Adapter (section 6): it sends a
  command and reads one response back; with no response pending it fails with
  \<open>TransportError\<close>.
\<close>

definition io_ask :: "string \<Rightarrow> driver \<Rightarrow> string result" where
  "io_ask cmd s =
     (case replies s of
        [] \<Rightarrow> (Inl TransportError, s\<lparr>trace := trace s @ [Ask cmd]\<rparr>)
      | r # rs \<Rightarrow> (Inr r, s\<lparr>trace := trace s @ [Ask cmd], replies := rs\<rparr>))"

text \<open>
  Modelled from the spec: \<open>_read\<close>, the reading half of an ask (sections 4.5 and 6): it
  reads one response; with no response pending it fails with \<open>TransportError\<close>.
\<close>

definition io_read :: "driver \<Rightarrow> string result" where
  "io_read s =
     (case replies s of
        [] \<Rightarrow> (Inl TransportError, s\<lparr>trace := trace s @ [Read]\<rparr>)
      | r # rs \<Rightarrow> (Inr r, s\<lparr>trace := trace s @ [Read], replies := rs\<rparr>))"

text \<open>
  Modelled from the spec: \<open>_get_cache_valid\<close>, the validity flag of an attribute of the
  Cached Attribute Store (sections 3 and 4.2). A getter or setter that names no attribute
  means its own, which is written out here as the tag.
\<close>

definition get_cache_valid :: "string \<Rightarrow> driver \<Rightarrow> bool" where
  "get_cache_valid tag s = cache_valid s tag"

text \<open>
  Modelled from the spec: \<open>_set_cache_valid\<close>, which sets the validity flag of one
  attribute (sections 3 and 4.2) and leaves the other flags as they are.
\<close>

definition set_cache_valid :: "bool \<Rightarrow> string \<Rightarrow> driver \<Rightarrow> driver" where
  "set_cache_valid valid tag s = s\<lparr>cache_valid := (cache_valid s)(tag := valid)\<rparr>"

text \<open>
  Modelled from the spec: \<open>driver_operation.invalidate_all_attributes\<close>, the bulk
  transition of every attribute to \<open>valid = false\<close> (sections 3 and 4.5).
\<close>

definition invalidate_all_attributes :: "driver \<Rightarrow> driver" where
  "invalidate_all_attributes s = s\<lparr>cache_valid := (\<lambda>tag. False)\<rparr>"

text \<open>\<open>time.sleep(n)\<close>.\<close>

definition sleep :: "nat \<Rightarrow> driver \<Rightarrow> driver" where
  "sleep n s = s\<lparr>trace := trace s @ [Sleep n]\<rparr>"

subsection \<open>Operations on a global object\<close>

text \<open>\<open>value in obj\<close>, \<open>obj[value]\<close> and \<open>obj.items()\<close>; \<open>raise name()\<close> for a global name.\<close>

fun contains :: "pyobj \<Rightarrow> pyval \<Rightarrow> pyerr + bool" where
  "contains (Dict d) v = Inr (dict_get d v \<noteq> None)"
| "contains obj v = Inl TypeError"

fun getitem :: "pyobj \<Rightarrow> pyval \<Rightarrow> pyerr + string" where
  "getitem (Dict d) v = (case dict_get d v of None \<Rightarrow> Inl KeyError | Some x \<Rightarrow> Inr x)"
| "getitem obj v = Inl TypeError"

fun items :: "pyobj \<Rightarrow> pyerr + (string \<times> string) list" where
  "items (Dict d) = Inr d"
| "items obj = Inl AttributeError"

fun instantiate :: "pyobj \<Rightarrow> pyerr" where
  "instantiate (Class c) = Raised (Class c)"
| "instantiate obj = TypeError"

definition raise_global :: "string \<Rightarrow> pyerr" where
  "raise_global name =
     (case load_global name of Inl e \<Rightarrow> e | Inr obj \<Rightarrow> instantiate obj)"

subsection \<open>Identity, reset and self test\<close>

definition load_id_string :: "driver \<Rightarrow> unit result" where
  "load_id_string s =
     (if driver_operation_simulate s then
        (Inr (),
         s\<lparr>identity_instrument_manufacturer := ''Not available while simulating'',
           identity_instrument_model := ''Not available while simulating'',
           identity_instrument_firmware_revision := ''Not available while simulating''\<rparr>)
      else
        (case io_ask ''*IDN?'' s of
           (Inl e, s0) \<Rightarrow> (Inl e, s0)
         | (Inr r, s0) \<Rightarrow>
             (let lst = split CHR '','' r in
              case index lst 0 of
                Inl e \<Rightarrow> (Inl e, s0)
              | Inr f0 \<Rightarrow>
                  (let s1 = s0\<lparr>identity_instrument_manufacturer := f0\<rparr> in
                   case index lst 1 of
                     Inl e \<Rightarrow> (Inl e, s1)
                   | Inr f1 \<Rightarrow>
                       (let s2 = s1\<lparr>identity_instrument_model := f1\<rparr> in
                        case index lst 3 of
                          Inl e \<Rightarrow> (Inl e, s2)
                        | Inr f3 \<Rightarrow>
                            (let s3 = s2\<lparr>identity_instrument_firmware_revision := f3\<rparr>;
                                 s4 = set_cache_valid True ''identity_instrument_manufacturer'' s3;
                                 s5 = set_cache_valid True ''identity_instrument_model'' s4;
                                 s6 = set_cache_valid True ''identity_instrument_firmware_revision'' s5
                             in (Inr (), s6)))))))"

definition get_identity_instrument_manufacturer :: "driver \<Rightarrow> string result" where
  "get_identity_instrument_manufacturer s =
     (if get_cache_valid ''identity_instrument_manufacturer'' s then
        (Inr (identity_instrument_manufacturer s), s)
      else
        (case load_id_string s of
           (Inl e, s1) \<Rightarrow> (Inl e, s1)
         | (Inr u, s1) \<Rightarrow> (Inr (identity_instrument_manufacturer s1), s1)))"

definition get_identity_instrument_model :: "driver \<Rightarrow> string result" where
  "get_identity_instrument_model s =
     (if get_cache_valid ''identity_instrument_model'' s then
        (Inr (identity_instrument_model s), s)
      else
        (case load_id_string s of
           (Inl e, s1) \<Rightarrow> (Inl e, s1)
         | (Inr u, s1) \<Rightarrow> (Inr (identity_instrument_model s1), s1)))"

definition get_identity_instrument_firmware_revision :: "driver \<Rightarrow> string result" where
  "get_identity_instrument_firmware_revision s =
     (if get_cache_valid ''identity_instrument_firmware_revision'' s then
        (Inr (identity_instrument_firmware_revision s), s)
      else
        (case load_id_string s of
           (Inl e, s1) \<Rightarrow> (Inl e, s1)
         | (Inr u, s1) \<Rightarrow> (Inr (identity_instrument_firmware_revision s1), s1)))"

definition utility_reset :: "driver \<Rightarrow> unit result" where
  "utility_reset s =
     (if \<not> driver_operation_simulate s then
        (case io_write ''*RST'' s of
           (Inl e, s1) \<Rightarrow> (Inl e, s1)
         | (Inr u, s1) \<Rightarrow> (Inr (), invalidate_all_attributes s1))
      else (Inr (), s))"

definition utility_self_test :: "builtins \<Rightarrow> driver \<Rightarrow> (int \<times> string) result" where
  "utility_self_test B s =
     (if \<not> driver_operation_simulate s then
        (case io_write ''*TST?'' s of
           (Inl e, s0) \<Rightarrow> (Inl e, s0)
         | (Inr u, s0) \<Rightarrow>
             (case io_read (sleep 40 s0) of
                (Inl e, s1) \<Rightarrow> (Inl e, s1)
              | (Inr r, s1) \<Rightarrow>
                  (case py_int B (PyStr r) of
                     Inl e \<Rightarrow> (Inl e, s1)
                   | Inr code \<Rightarrow>
                       (Inr (code,
                             if code \<noteq> 0 then ''Self test failed'' else ''Self test passed''),
                        s1))))
      else (Inr (0, ''Self test passed''), s))"

subsection \<open>The attributes\<close>

definition get_measurement_function :: "driver \<Rightarrow> pyval result" where
  "get_measurement_function s =
     (if \<not> driver_operation_simulate s \<and> \<not> get_cache_valid ''measurement_function'' s then
        (case io_ask '':sense:function?'' s of
           (Inl e, s1) \<Rightarrow> (Inl e, s1)
         | (Inr r, s1) \<Rightarrow>
             (let v = lower r in
              case load_global ''TriggerTypeMapping'' of
                Inl e \<Rightarrow> (Inl e, s1)
              | Inr obj \<Rightarrow>
                  (case items obj of
                     Inl e \<Rightarrow> (Inl e, s1)
                   | Inr kvs \<Rightarrow>
                       (case index (map fst (filter (\<lambda>kv. snd kv = v) kvs)) 0 of
                          Inl e \<Rightarrow> (Inl e, s1)
                        | Inr k \<Rightarrow>
                            (let s2 = set_cache_valid True ''measurement_function''
                                        (s1\<lparr>measurement_function := PyStr k\<rparr>)
                             in (Inr (measurement_function s2), s2))))))
      else (Inr (measurement_function s), s))"

definition set_measurement_function :: "pyval \<Rightarrow> driver \<Rightarrow> unit result" where
  "set_measurement_function v s =
     (case load_global ''MeasurementFunctionMapping'' of
        Inl e \<Rightarrow> (Inl e, s)
      | Inr obj \<Rightarrow>
          (case contains obj v of
             Inl e \<Rightarrow> (Inl e, s)
           | Inr False \<Rightarrow> (Inl ValueNotSupportedException, s)
           | Inr True \<Rightarrow>
               (if \<not> driver_operation_simulate s then
                  (case getitem obj v of
                     Inl e \<Rightarrow> (Inl e, s)
                   | Inr tok \<Rightarrow>
                       (case io_write ('':sense:function '' @ tok) s of
                          (Inl e, s1) \<Rightarrow> (Inl e, s1)
                        | (Inr u, s1) \<Rightarrow>
                            (Inr (),
                             set_cache_valid True ''measurement_function''
                               (s1\<lparr>measurement_function := v\<rparr>))))
                else
                  (Inr (),
                   set_cache_valid True ''measurement_function''
                     (s\<lparr>measurement_function := v\<rparr>)))))"

definition get_range :: "driver \<Rightarrow> pyval result" where
  "get_range s = (Inr (range_attr s), s)"

definition set_range :: "builtins \<Rightarrow> pyval \<Rightarrow> driver \<Rightarrow> unit result" where
  "set_range B v s =
     (case py_float B v of
        Inl e \<Rightarrow> (Inl e, s)
      | Inr f \<Rightarrow> (Inr (), s\<lparr>range_attr := PyFloat f\<rparr>))"

definition get_auto_range :: "driver \<Rightarrow> pyval result" where
  "get_auto_range s = (Inr (auto_range s), s)"

definition set_auto_range :: "pyval \<Rightarrow> driver \<Rightarrow> unit result" where
  "set_auto_range v s =
     (case load_global ''Auto'' of
        Inl e \<Rightarrow> (Inl e, s)
      | Inr obj \<Rightarrow>
          (case contains obj v of
             Inl e \<Rightarrow> (Inl e, s)
           | Inr False \<Rightarrow> (Inl ValueNotSupportedException, s)
           | Inr True \<Rightarrow> (Inr (), s\<lparr>auto_range := v\<rparr>)))"

definition get_resolution :: "driver \<Rightarrow> pyval result" where
  "get_resolution s = (Inr (resolution s), s)"

definition set_resolution :: "builtins \<Rightarrow> pyval \<Rightarrow> driver \<Rightarrow> unit result" where
  "set_resolution B v s =
     (case py_float B v of
        Inl e \<Rightarrow> (Inl e, s)
      | Inr f \<Rightarrow> (Inr (), s\<lparr>resolution := PyFloat f\<rparr>))"

definition get_trigger_delay :: "driver \<Rightarrow> pyval result" where
  "get_trigger_delay s = (Inr (trigger_delay s), s)"

definition set_trigger_delay :: "builtins \<Rightarrow> pyval \<Rightarrow> driver \<Rightarrow> unit result" where
  "set_trigger_delay B v s =
     (case py_float B v of
        Inl e \<Rightarrow> (Inl e, s)
      | Inr f \<Rightarrow> (Inr (), s\<lparr>trigger_delay := PyFloat f\<rparr>))"

definition get_trigger_delay_auto :: "driver \<Rightarrow> pyval result" where
  "get_trigger_delay_auto s = (Inr (trigger_delay_auto s), s)"

definition set_trigger_delay_auto :: "pyval \<Rightarrow> driver \<Rightarrow> unit result" where
  "set_trigger_delay_auto v s = (Inr (), s\<lparr>trigger_delay_auto := PyBool (py_bool v)\<rparr>)"

definition get_trigger_source :: "driver \<Rightarrow> pyval result" where
  "get_trigger_source s = (Inr (trigger_source s), s)"

definition set_trigger_source :: "builtins \<Rightarrow> pyval \<Rightarrow> driver \<Rightarrow> unit result" where
  "set_trigger_source B v s = (Inr (), s\<lparr>trigger_source := PyStr (py_str B v)\<rparr>)"

subsection \<open>Measurements\<close>

definition measurement_fetch :: "builtins \<Rightarrow> pyval \<Rightarrow> driver \<Rightarrow> real result" where
  "measurement_fetch B max_time s =
     (if \<not> driver_operation_simulate s then
        (case io_ask '':fetch?'' s of
           (Inl e, s1) \<Rightarrow> (Inl e, s1)
         | (Inr r, s1) \<Rightarrow>
             (case py_float B (PyStr r) of
                Inl e \<Rightarrow> (Inl e, s1)
              | Inr f \<Rightarrow> (Inr f, s1)))
      else (Inr 0, s))"

definition measurement_read :: "builtins \<Rightarrow> pyval \<Rightarrow> driver \<Rightarrow> real result" where
  "measurement_read B max_time s =
     (if \<not> driver_operation_simulate s then
        (case io_ask '':read?'' s of
           (Inl e, s1) \<Rightarrow> (Inl e, s1)
         | (Inr r, s1) \<Rightarrow>
             (case py_float B (PyStr r) of
                Inl e \<Rightarrow> (Inl e, s1)
              | Inr f \<Rightarrow> (Inr f, s1)))
      else (Inr 0, s))"

subsection \<open>Memory slots\<close>

definition memory_save :: "builtins \<Rightarrow> pyval \<Rightarrow> driver \<Rightarrow> unit result" where
  "memory_save B idx s =
     (case py_int B idx of
        Inl e \<Rightarrow> (Inl e, s)
      | Inr i \<Rightarrow>
          (if i < 1 \<or> i > memory_size s then (Inl (raise_global ''OutOfRangeException''), s)
           else if \<not> driver_operation_simulate s then io_write (''*sav '' @ fmt_d i) s
           else (Inr (), s)))"

definition memory_recall :: "builtins \<Rightarrow> pyval \<Rightarrow> driver \<Rightarrow> unit result" where
  "memory_recall B idx s =
     (case py_int B idx of
        Inl e \<Rightarrow> (Inl e, s)
      | Inr i \<Rightarrow>
          (if i < 1 \<or> i > memory_size s then (Inl (raise_global ''OutOfRangeException''), s)
           else if \<not> driver_operation_simulate s then io_write (''*rcl '' @ fmt_d i) s
           else (Inr (), s)))"

definition get_memory_name :: "builtins \<Rightarrow> pyval \<Rightarrow> driver \<Rightarrow> pyval result" where
  "get_memory_name B idx s =
     (case py_int B idx of
        Inl e \<Rightarrow> (Inl e, s)
      | Inr i \<Rightarrow>
          (if i < 1 \<or> i > memory_size s then (Inl (raise_global ''OutOfRangeException''), s)
           else if \<not> driver_operation_simulate s then
             (case io_ask (''memory:state:name? '' @ fmt_d i) s of
                (Inl e, s1) \<Rightarrow> (Inl e, s1)
              | (Inr r, s1) \<Rightarrow> (Inr (PyStr (strip [CHR '' '', dquote] r)), s1))
           else (Inr PyNone, s)))"

definition set_memory_name :: "builtins \<Rightarrow> pyval \<Rightarrow> pyval \<Rightarrow> driver \<Rightarrow> unit result" where
  "set_memory_name B idx v s =
     (case py_int B idx of
        Inl e \<Rightarrow> (Inl e, s)
      | Inr i \<Rightarrow>
          (let name = py_str B v in
           if i < 1 \<or> i > memory_size s then (Inl (raise_global ''OutOfRangeException''), s)
           else if \<not> driver_operation_simulate s then
             io_write (''memory:state:name '' @ fmt_d i @ '', '' @ [dquote] @ name @ [dquote]) s
           else (Inr (), s)))"

subsection \<open>A driver and builtins to run the operations on\<close>

text \<open>
  An instance of the builtins for running the operations on concrete arguments. It is
  the interpreter's \<open>float\<close> on a float, \<open>int\<close> on an int and on a string of decimal digits,
  and \<open>str\<close> on a string and on an int. On other arguments it is not the interpreter's,
  and it is applied to none.
\<close>

definition digit_val :: "char \<Rightarrow> nat option" where
  "digit_val c =
     (let n = (of_char c :: nat) in if 48 \<le> n \<and> n \<le> 57 then Some (n - 48) else None)"

fun parse_digits :: "nat \<Rightarrow> string \<Rightarrow> nat option" where
  "parse_digits acc [] = Some acc"
| "parse_digits acc (c # cs) =
     (case digit_val c of None \<Rightarrow> None | Some d \<Rightarrow> parse_digits (10 * acc + d) cs)"

fun sample_float :: "pyval \<Rightarrow> pyerr + real" where
  "sample_float (PyFloat r) = Inr r"
| "sample_float v = Inl TypeError"

fun sample_int :: "pyval \<Rightarrow> pyerr + int" where
  "sample_int (PyInt i) = Inr i"
| "sample_int (PyStr s) =
     (if s = [] then Inl ValueError
      else case parse_digits 0 s of None \<Rightarrow> Inl ValueError | Some n \<Rightarrow> Inr (int n))"
| "sample_int v = Inl TypeError"

fun sample_str :: "pyval \<Rightarrow> string" where
  "sample_str (PyStr s) = s"
| "sample_str (PyInt i) = fmt_d i"
| "sample_str v = []"

definition sample_builtins :: builtins where
  "sample_builtins = \<lparr>py_float = sample_float, py_int = sample_int, py_str = sample_str\<rparr>"

text \<open>
  The tags of the validity flags: the names of the getters and setters without their
  prefix, and the three that \<open>_load_id_string\<close> names.
\<close>

definition attribute_tags :: "string list" where
  "attribute_tags =
     [''identity_instrument_manufacturer'',
      ''identity_instrument_model'',
      ''identity_instrument_firmware_revision'',
      ''measurement_function'',
      ''range'',
      ''auto_range'',
      ''resolution'',
      ''trigger_delay'',
      ''trigger_delay_auto'',
      ''trigger_source'']"

text \<open>
  A driver as \<open>__init__\<close> leaves it (lines 52 to 68: five memory slots, the manufacturer's
  name, an empty model and firmware revision), in or out of simulation mode, with the
  listed attributes valid, the given responses pending, a session that accepts writes and
  nothing sent yet. The values
  of the multimeter attributes are set by the base class, which is not part of the file;
  the ones here are placeholders.
\<close>

definition sample_driver :: "bool \<Rightarrow> string list \<Rightarrow> string list \<Rightarrow> driver" where
  "sample_driver simulate valid rs =
     \<lparr>driver_operation_simulate = simulate,
      memory_size = 5,
      identity_instrument_manufacturer = ''Agilent Technologies'',
      identity_instrument_model = [],
      identity_instrument_firmware_revision = [],
      measurement_function = PyStr ''dc_volts'',
      range_attr = PyFloat 0,
      auto_range = PyStr ''off'',
      resolution = PyFloat 1,
      trigger_delay = PyFloat 0,
      trigger_delay_auto = PyBool False,
      trigger_source = PyStr [],
      cache_valid = (\<lambda>tag. tag \<in> set valid),
      trace = [],
      replies = rs,
      write_ok = True\<rparr>"

section \<open>Properties\<close>

subsection \<open>Global name lookup\<close>

text \<open>
  Of the four global names the methods refer to, only the forward table is bound in the
  module.
\<close>

lemma load_global_simps:
  "load_global ''MeasurementFunctionMapping'' = Inr (Dict MeasurementFunctionMapping)"
  "load_global ''TriggerTypeMapping'' = Inl (NameError ''TriggerTypeMapping'')"
  "load_global ''Auto'' = Inl (NameError ''Auto'')"
  "raise_global ''OutOfRangeException'' = NameError ''OutOfRangeException''"
  by (simp_all add: load_global_def module_globals_def raise_global_def)

subsection \<open>Simulation mode\<close>

text \<open>
  C7. In simulation mode, \<open>read(timeout)\<close> and \<open>fetch(timeout)\<close> each return 0.0 and
  \<open>selfTest()\<close> returns the code 0 with the success message; all three leave the driver as
  it is, so the trace gains no transport call and no wait.
\<close>

theorem simulate_read_fetch_self_test:
  "driver_operation_simulate s \<Longrightarrow>
     measurement_read B t s = (Inr 0, s) \<and>
     measurement_fetch B t s = (Inr 0, s) \<and>
     utility_self_test B s = (Inr (0, ''Self test passed''), s)"
  by (simp add: measurement_read_def measurement_fetch_def utility_self_test_def)

theorem simulate_read_fetch_self_test_witness:
  "driver_operation_simulate (sample_driver True attribute_tags []) \<and>
   measurement_read sample_builtins (PyFloat 1) (sample_driver True attribute_tags []) =
     (Inr 0, sample_driver True attribute_tags []) \<and>
   measurement_fetch sample_builtins (PyFloat 1) (sample_driver True attribute_tags []) =
     (Inr 0, sample_driver True attribute_tags []) \<and>
   utility_self_test sample_builtins (sample_driver True attribute_tags []) =
     (Inr (0, ''Self test passed''), sample_driver True attribute_tags [])"
  using simulate_read_fetch_self_test
          [of "sample_driver True attribute_tags []" sample_builtins "PyFloat 1"]
  by (simp add: sample_driver_def)

text \<open>
  C10. In simulation mode, for an index from 1 to 5, \<open>getName(index)\<close> returns None and
  \<open>save\<close>, \<open>recall\<close> and \<open>setName\<close> succeed; none of the four changes the driver.
\<close>

theorem simulate_memory_slots:
  assumes "driver_operation_simulate s"
    and "memory_size s = 5"
    and "py_int B idx = Inr i"
    and "1 \<le> i" and "i \<le> 5"
  shows "get_memory_name B idx s = (Inr PyNone, s) \<and>
         memory_save B idx s = (Inr (), s) \<and>
         memory_recall B idx s = (Inr (), s) \<and>
         set_memory_name B idx v s = (Inr (), s)"
  using assms
  by (simp add: get_memory_name_def memory_save_def memory_recall_def set_memory_name_def)

theorem simulate_memory_slots_witness:
  "driver_operation_simulate (sample_driver True attribute_tags []) \<and>
   memory_size (sample_driver True attribute_tags []) = 5 \<and>
   py_int sample_builtins (PyInt 3) = Inr 3 \<and> (1::int) \<le> 3 \<and> (3::int) \<le> 5 \<and>
   get_memory_name sample_builtins (PyInt 3) (sample_driver True attribute_tags []) =
     (Inr PyNone, sample_driver True attribute_tags []) \<and>
   memory_save sample_builtins (PyInt 3) (sample_driver True attribute_tags []) =
     (Inr (), sample_driver True attribute_tags []) \<and>
   memory_recall sample_builtins (PyInt 3) (sample_driver True attribute_tags []) =
     (Inr (), sample_driver True attribute_tags []) \<and>
   set_memory_name sample_builtins (PyInt 3) (PyStr ''cal-ref'')
       (sample_driver True attribute_tags []) =
     (Inr (), sample_driver True attribute_tags [])"
  using simulate_memory_slots
          [of "sample_driver True attribute_tags []" sample_builtins "PyInt 3" 3
              "PyStr ''cal-ref''"]
  by (simp add: sample_driver_def sample_builtins_def)

subsection \<open>Self test\<close>

text \<open>
  C9. Out of simulation mode, when the session accepts the write, a response is pending and
  \<open>int\<close> converts it, \<open>selfTest()\<close> writes the self-test command, waits 40 time units,
  reads one response and converts it to an integer; it returns that code with the failure
  message exactly when the code is not zero and with the success message exactly when it
  is zero.
\<close>

theorem self_test_code_and_message:
  assumes "\<not> driver_operation_simulate s"
    and "write_ok s"
    and "replies s = r # rs"
    and "py_int B (PyStr r) = Inr code"
  shows "\<exists>msg.
           utility_self_test B s =
             (Inr (code, msg),
              s\<lparr>trace := trace s @ [Write ''*TST?'', Sleep 40, Read], replies := rs\<rparr>) \<and>
           (msg = ''Self test failed'' \<longleftrightarrow> code \<noteq> 0) \<and>
           (msg = ''Self test passed'' \<longleftrightarrow> code = 0)"
  using assms
  by (simp add: utility_self_test_def io_read_def io_write_def sleep_def)

theorem self_test_code_and_message_witness:
  "\<not> driver_operation_simulate (sample_driver False attribute_tags [''1'']) \<and>
   write_ok (sample_driver False attribute_tags [''1'']) \<and>
   replies (sample_driver False attribute_tags [''1'']) = [''1''] \<and>
   py_int sample_builtins (PyStr ''1'') = Inr 1 \<and>
   utility_self_test sample_builtins (sample_driver False attribute_tags [''1'']) =
     (Inr (1, ''Self test failed''),
      (sample_driver False attribute_tags [''1''])
        \<lparr>trace := [Write ''*TST?'', Sleep 40, Read], replies := []\<rparr>)"
proof -
  let ?s = "sample_driver False attribute_tags [''1'']"
  have h1: "\<not> driver_operation_simulate ?s" by (simp add: sample_driver_def)
  have h0: "write_ok ?s" by (simp add: sample_driver_def)
  have h2: "replies ?s = ''1'' # []" by (simp add: sample_driver_def)
  have h3: "py_int sample_builtins (PyStr ''1'') = Inr 1"
    by (simp add: sample_builtins_def digit_val_def)
  from self_test_code_and_message [OF h1 h0 h2 h3]
  have "utility_self_test sample_builtins ?s =
     (Inr (1, ''Self test failed''),
      ?s\<lparr>trace := trace ?s @ [Write ''*TST?'', Sleep 40, Read], replies := []\<rparr>)"
    by auto
  moreover have "trace ?s = []" by (simp add: sample_driver_def)
  ultimately show ?thesis using h1 h0 h2 h3 by simp
qed

text \<open>
  When the session refuses the write, the self test fails with \<open>TransportError\<close> after the
  attempt, without waiting or reading.
\<close>

lemma self_test_write_fails:
  "\<not> driver_operation_simulate s \<Longrightarrow> \<not> write_ok s \<Longrightarrow>
     utility_self_test B s = (Inl TransportError, s\<lparr>trace := trace s @ [Write ''*TST?'']\<rparr>)"
  by (simp add: utility_self_test_def io_write_def)

subsection \<open>The identification string\<close>

lemma split_not_Nil: "split sep s \<noteq> []"
  by (induction s) (auto split: list.splits)

text \<open>
  C8, as the code has it. Out of simulation mode, \<open>loadIdentity()\<close> asks for the
  identification and splits the response on commas. With four fields or more it assigns
  field 0 to the manufacturer, field 1 to the model and field 3 to the firmware revision and
  marks the three attributes valid. With fewer than four fields it fails with Python's
  IndexError and marks nothing valid.
\<close>

theorem load_id_string_fields:
  assumes "\<not> driver_operation_simulate s"
    and "replies s = r # rs"
  shows "(if 4 \<le> length (split CHR '','' r) then
            fst (load_id_string s) = Inr () \<and>
            identity_instrument_manufacturer (snd (load_id_string s)) = split CHR '','' r ! 0 \<and>
            identity_instrument_model (snd (load_id_string s)) = split CHR '','' r ! 1 \<and>
            identity_instrument_firmware_revision (snd (load_id_string s)) =
              split CHR '','' r ! 3 \<and>
            get_cache_valid ''identity_instrument_manufacturer'' (snd (load_id_string s)) \<and>
            get_cache_valid ''identity_instrument_model'' (snd (load_id_string s)) \<and>
            get_cache_valid ''identity_instrument_firmware_revision'' (snd (load_id_string s))
          else
            fst (load_id_string s) = Inl IndexError \<and>
            cache_valid (snd (load_id_string s)) = cache_valid s)"
  using assms
  by (simp add: load_id_string_def io_ask_def index_def Let_def set_cache_valid_def
      get_cache_valid_def)

theorem load_id_string_fields_witness:
  "\<not> driver_operation_simulate
       (sample_driver False [] [''Agilent Technologies,34410A,MY47000001,2.35'']) \<and>
   replies (sample_driver False [] [''Agilent Technologies,34410A,MY47000001,2.35'']) =
     [''Agilent Technologies,34410A,MY47000001,2.35''] \<and>
   length (split CHR '','' ''Agilent Technologies,34410A,MY47000001,2.35'') = 4 \<and>
   fst (load_id_string
          (sample_driver False [] [''Agilent Technologies,34410A,MY47000001,2.35''])) =
     Inr () \<and>
   identity_instrument_manufacturer
     (snd (load_id_string
             (sample_driver False [] [''Agilent Technologies,34410A,MY47000001,2.35''])))
     = ''Agilent Technologies'' \<and>
   identity_instrument_model
     (snd (load_id_string
             (sample_driver False [] [''Agilent Technologies,34410A,MY47000001,2.35''])))
     = ''34410A'' \<and>
   identity_instrument_firmware_revision
     (snd (load_id_string
             (sample_driver False [] [''Agilent Technologies,34410A,MY47000001,2.35''])))
     = ''2.35'' \<and>
   get_cache_valid ''identity_instrument_model''
     (snd (load_id_string
             (sample_driver False [] [''Agilent Technologies,34410A,MY47000001,2.35'']))) \<and>
   \<not> driver_operation_simulate (sample_driver False [] [''34410A'']) \<and>
   replies (sample_driver False [] [''34410A'']) = [''34410A''] \<and>
   length (split CHR '','' ''34410A'') = 1 \<and>
   fst (load_id_string (sample_driver False [] [''34410A''])) = Inl IndexError \<and>
   \<not> get_cache_valid ''identity_instrument_manufacturer''
       (snd (load_id_string (sample_driver False [] [''34410A''])))"
proof -
  let ?r = "''Agilent Technologies,34410A,MY47000001,2.35''"
  let ?s = "sample_driver False [] [?r]"
  let ?t = "sample_driver False [] [''34410A'']"
  have h1: "\<not> driver_operation_simulate ?s" by (simp add: sample_driver_def)
  have h2: "replies ?s = ?r # []" by (simp add: sample_driver_def)
  have sp: "split CHR '','' ?r = [''Agilent Technologies'', ''34410A'', ''MY47000001'', ''2.35'']"
    by simp
  have long: "fst (load_id_string ?s) = Inr () \<and>
      identity_instrument_manufacturer (snd (load_id_string ?s)) = ''Agilent Technologies'' \<and>
      identity_instrument_model (snd (load_id_string ?s)) = ''34410A'' \<and>
      identity_instrument_firmware_revision (snd (load_id_string ?s)) = ''2.35'' \<and>
      get_cache_valid ''identity_instrument_model'' (snd (load_id_string ?s))"
    using load_id_string_fields [OF h1 h2] unfolding sp by simp
  have k1: "\<not> driver_operation_simulate ?t" by (simp add: sample_driver_def)
  have k2: "replies ?t = ''34410A'' # []" by (simp add: sample_driver_def)
  have sq: "split CHR '','' ''34410A'' = [''34410A'']" by simp
  have v: "cache_valid ?t ''identity_instrument_manufacturer'' = False"
    by (simp add: sample_driver_def)
  have short: "fst (load_id_string ?t) = Inl IndexError \<and>
      \<not> get_cache_valid ''identity_instrument_manufacturer'' (snd (load_id_string ?t))"
    using load_id_string_fields [OF k1 k2] v unfolding sq by (simp add: get_cache_valid_def)
  from long short h1 h2 k1 k2 show ?thesis unfolding sp sq by simp
qed

text \<open>
  A response of three fields: the failure is IndexError, not the specification's
  DeviceResponseError.
\<close>

theorem load_id_string_three_fields:
  "\<not> driver_operation_simulate
       (sample_driver False [] [''Agilent Technologies,34410A,MY47000001'']) \<and>
   length (split CHR '','' ''Agilent Technologies,34410A,MY47000001'') = 3 \<and>
   fst (load_id_string (sample_driver False [] [''Agilent Technologies,34410A,MY47000001''])) =
     Inl IndexError \<and>
   fst (load_id_string (sample_driver False [] [''Agilent Technologies,34410A,MY47000001''])) \<noteq>
     Inl DeviceResponseError"
  by (simp add: sample_driver_def load_id_string_def io_ask_def index_def Let_def)

subsection \<open>Memory slots\<close>

text \<open>
  With the index in range, out of simulation mode and with a session that accepts writes,
  each of the four operations makes one transport call and does not fail on the index.
\<close>

lemma memory_in_range_general:
  assumes "\<not> driver_operation_simulate s" and "write_ok s" and "py_int B idx = Inr i"
    and "1 \<le> i" and "i \<le> memory_size s"
  shows "memory_save B idx s = (Inr (), s\<lparr>trace := trace s @ [Write (''*sav '' @ fmt_d i)]\<rparr>)"
    and "memory_recall B idx s = (Inr (), s\<lparr>trace := trace s @ [Write (''*rcl '' @ fmt_d i)]\<rparr>)"
    and "transport_calls (snd (get_memory_name B idx s)) = transport_calls s + 1"
    and "fst (get_memory_name B idx s) \<noteq> Inl OutOfRangeException"
    and "set_memory_name B idx v s =
           (Inr (), s\<lparr>trace := trace s @
              [Write (''memory:state:name '' @ fmt_d i @ '', '' @ [dquote] @ py_str B v @ [dquote])]\<rparr>)"
  using assms
  by (auto simp add: memory_save_def memory_recall_def get_memory_name_def set_memory_name_def
      io_write_def io_ask_def transport_calls_def split: list.splits)

text \<open>
  With the index out of range, the \<open>raise\<close> statement refers to \<open>OutOfRangeException\<close> by its
  bare name, which the module does not bind (the sibling \<open>raise\<close> in the setters writes
  \<open>ivi.ValueNotSupportedException\<close>): the operation fails with NameError, before any
  transport call.
\<close>

lemma memory_out_of_range_general:
  assumes "py_int B idx = Inr i" and "i < 1 \<or> memory_size s < i"
  shows "memory_save B idx s = (Inl (NameError ''OutOfRangeException''), s)"
    and "memory_recall B idx s = (Inl (NameError ''OutOfRangeException''), s)"
    and "get_memory_name B idx s = (Inl (NameError ''OutOfRangeException''), s)"
    and "set_memory_name B idx v s = (Inl (NameError ''OutOfRangeException''), s)"
  using assms
  by (auto simp add: memory_save_def memory_recall_def get_memory_name_def set_memory_name_def
      load_global_simps)

text \<open>
  C3, at \<open>save(6)\<close>, \<open>recall(6)\<close>, \<open>getName(0)\<close> and \<open>setName(0, "cal-ref")\<close> out of simulation
  mode: each fails with NameError, not with the out-of-range error of the specification;
  the driver is unchanged, so no transport call was made.
\<close>

theorem memory_index_out_of_range:
  "memory_save sample_builtins (PyInt 6) (sample_driver False attribute_tags []) =
     (Inl (NameError ''OutOfRangeException''), sample_driver False attribute_tags []) \<and>
   memory_recall sample_builtins (PyInt 6) (sample_driver False attribute_tags []) =
     (Inl (NameError ''OutOfRangeException''), sample_driver False attribute_tags []) \<and>
   get_memory_name sample_builtins (PyInt 0) (sample_driver False attribute_tags []) =
     (Inl (NameError ''OutOfRangeException''), sample_driver False attribute_tags []) \<and>
   set_memory_name sample_builtins (PyInt 0) (PyStr ''cal-ref'')
       (sample_driver False attribute_tags []) =
     (Inl (NameError ''OutOfRangeException''), sample_driver False attribute_tags [])"
  by (simp add: memory_save_def memory_recall_def get_memory_name_def set_memory_name_def
      sample_builtins_def sample_driver_def load_global_simps)

subsection \<open>The enumerated attributes\<close>

text \<open>
  The setter of \<open>measurement_function\<close> accepts exactly the keys of the table, rejects
  every other value with \<open>ValueNotSupportedException\<close> and then changes nothing. On an
  accepted value out of simulation mode it writes the command first; when the session
  refuses the write it fails with \<open>TransportError\<close> and stores nothing.
\<close>

lemma dict_get_keys:
  "dict_get MeasurementFunctionMapping v \<noteq> None \<longleftrightarrow>
     v \<in> PyStr ` set (map fst MeasurementFunctionMapping)"
  by (cases v) (auto simp add: map_of_eq_None_iff)

lemma set_measurement_function_rejects:
  "dict_get MeasurementFunctionMapping v = None \<Longrightarrow>
     set_measurement_function v s = (Inl ValueNotSupportedException, s)"
  by (simp add: set_measurement_function_def load_global_simps)

lemma set_measurement_function_accepts:
  "dict_get MeasurementFunctionMapping v = Some tok \<Longrightarrow>
     set_measurement_function v s =
       (if driver_operation_simulate s then
          (Inr (),
           s\<lparr>measurement_function := v,
             cache_valid := (cache_valid s)(''measurement_function'' := True)\<rparr>)
        else if write_ok s then
          (Inr (),
           s\<lparr>trace := trace s @ [Write ('':sense:function '' @ tok)],
             measurement_function := v,
             cache_valid := (cache_valid s)(''measurement_function'' := True)\<rparr>)
        else
          (Inl TransportError, s\<lparr>trace := trace s @ [Write ('':sense:function '' @ tok)]\<rparr>))"
  by (simp add: set_measurement_function_def load_global_simps set_cache_valid_def io_write_def)

text \<open>
  The setter of \<open>auto_range\<close> tests \<open>value not in Auto\<close>; the module binds no \<open>Auto\<close> (the set
  is \<open>dmm.Auto\<close>), so the setter fails with NameError on every value.
\<close>

lemma set_auto_range_always_fails: "set_auto_range v s = (Inl (NameError ''Auto''), s)"
  by (simp add: set_auto_range_def load_global_simps)

text \<open>
  C6, at \<open>auto_range = "bogus"\<close>: the setter fails with NameError, not with
  \<open>ValueNotSupportedException\<close>; the driver is unchanged.
\<close>

theorem set_auto_range_name_error:
  "set_auto_range (PyStr ''bogus'') (sample_driver False attribute_tags []) =
     (Inl (NameError ''Auto''), sample_driver False attribute_tags [])"
  by (simp add: set_auto_range_def load_global_simps)

subsection \<open>Reading the measurement function back\<close>

text \<open>
  The inverse lookup of the getter, \<open>[k for k, v in table.items() if v == value][0]\<close>,
  applied to the forward table: the tokens are distinct and in lower case, so the token of
  a function leads back to that function.
\<close>

lemma inverse_lookup:
  "distinct (map snd kvs) \<Longrightarrow> (k, v) \<in> set kvs \<Longrightarrow>
     map fst (filter (\<lambda>kv. snd kv = v) kvs) = [k]"
proof (induction kvs)
  case Nil
  then show ?case by simp
next
  case (Cons kv kvs)
  show ?case
  proof (cases "kv = (k, v)")
    case True
    with Cons.prems have "v \<notin> snd ` set kvs" by simp
    then have "filter (\<lambda>kv. snd kv = v) kvs = []"
      by (auto simp add: filter_empty_conv)
    with True show ?thesis by simp
  next
    case False
    with Cons.prems have mem: "(k, v) \<in> set kvs" by simp
    from mem have "v \<in> snd ` set kvs" by force
    with Cons.prems have "snd kv \<noteq> v" by auto
    with Cons.IH Cons.prems mem show ?thesis by simp
  qed
qed

lemma mapping_tokens_distinct: "distinct (map snd MeasurementFunctionMapping)"
  by (simp add: MeasurementFunctionMapping_def)

lemma mapping_tokens_lower: "list_all (\<lambda>kv. lower (snd kv) = snd kv) MeasurementFunctionMapping"
  by (simp add: MeasurementFunctionMapping_def lower_def lower_char_def)

lemma mapping_round_trip:
  assumes "(k, tok) \<in> set MeasurementFunctionMapping"
  shows "index (map fst (filter (\<lambda>kv. snd kv = lower tok) MeasurementFunctionMapping)) 0 = Inr k"
proof -
  from assms mapping_tokens_lower have "lower tok = tok"
    by (auto simp add: list_all_iff)
  with inverse_lookup [OF mapping_tokens_distinct assms] show ?thesis
    by (simp add: index_def)
qed

text \<open>
  The getter does not use the forward table: it names \<open>TriggerTypeMapping\<close>, which the
  module does not bind. With a valid flag or in simulation mode it returns the cached
  value; otherwise it asks the instrument and then fails with NameError, whatever the
  response.
\<close>

lemma get_measurement_function_cached:
  "driver_operation_simulate s \<or> get_cache_valid ''measurement_function'' s \<Longrightarrow>
     get_measurement_function s = (Inr (measurement_function s), s)"
  by (auto simp add: get_measurement_function_def)

lemma get_measurement_function_query:
  assumes "\<not> driver_operation_simulate s"
    and "\<not> get_cache_valid ''measurement_function'' s"
  shows "get_measurement_function s =
     (case replies s of
        [] \<Rightarrow> (Inl TransportError, s\<lparr>trace := trace s @ [Ask '':sense:function?'']\<rparr>)
      | r # rs \<Rightarrow>
          (Inl (NameError ''TriggerTypeMapping''),
           s\<lparr>trace := trace s @ [Ask '':sense:function?''], replies := rs\<rparr>))"
  using assms
  by (simp add: get_measurement_function_def io_ask_def load_global_simps split: list.splits)

text \<open>
  C1, at \<open>f = "dc_volts"\<close>: the set writes the token \<open>volt\<close>; after the flags are invalidated,
  the get with the instrument answering \<open>volt\<close> asks once and fails with NameError instead
  of returning \<open>f\<close>.
\<close>

theorem get_measurement_function_name_error:
  "trace (snd (set_measurement_function (PyStr ''dc_volts'')
                 (sample_driver False attribute_tags [''volt''])))
     = [Write '':sense:function volt''] \<and>
   fst (get_measurement_function
          (invalidate_all_attributes
             (snd (set_measurement_function (PyStr ''dc_volts'')
                     (sample_driver False attribute_tags [''volt''])))))
     = Inl (NameError ''TriggerTypeMapping'') \<and>
   trace (snd (get_measurement_function
                 (invalidate_all_attributes
                    (snd (set_measurement_function (PyStr ''dc_volts'')
                            (sample_driver False attribute_tags [''volt'']))))))
     = [Write '':sense:function volt'', Ask '':sense:function?'']"
  by (simp add: set_measurement_function_def load_global_simps MeasurementFunctionMapping_def
      sample_driver_def get_measurement_function_def io_ask_def io_write_def
      invalidate_all_attributes_def set_cache_valid_def get_cache_valid_def)

subsection \<open>A set followed by a get\<close>

text \<open>
  C2, as the code has it. For \<open>measurement_function\<close> and a value \<open>f\<close> of its table, in
  simulation mode or with a session that accepts the write, the set succeeds and leaves
  the validity flag true and the cached value \<open>f\<close>, and a get after it returns \<open>f\<close> and
  leaves the driver as it is (no transport call). For \<open>range\<close>, \<open>resolution\<close> and
  \<open>trigger_delay\<close> the set stores \<open>float(v)\<close>, for \<open>trigger_delay_auto\<close> it stores \<open>bool(v)\<close>, for
  \<open>trigger_source\<close> it stores \<open>str(v)\<close>; these five setters change nothing else, so the
  validity flag stays as it was, and a get after them returns the stored value and leaves
  the driver as it is.
\<close>

theorem set_then_get:
  assumes "dict_get MeasurementFunctionMapping f = Some tok"
    and "driver_operation_simulate s \<or> write_ok s"
    and "py_float B v = Inr x"
  shows "fst (set_measurement_function f s) = Inr () \<and>
         get_cache_valid ''measurement_function'' (snd (set_measurement_function f s)) \<and>
         measurement_function (snd (set_measurement_function f s)) = f \<and>
         get_measurement_function (snd (set_measurement_function f s)) =
           (Inr f, snd (set_measurement_function f s)) \<and>
         set_range B v s = (Inr (), s\<lparr>range_attr := PyFloat x\<rparr>) \<and>
         get_range (s\<lparr>range_attr := PyFloat x\<rparr>) =
           (Inr (PyFloat x), s\<lparr>range_attr := PyFloat x\<rparr>) \<and>
         set_resolution B v s = (Inr (), s\<lparr>resolution := PyFloat x\<rparr>) \<and>
         get_resolution (s\<lparr>resolution := PyFloat x\<rparr>) =
           (Inr (PyFloat x), s\<lparr>resolution := PyFloat x\<rparr>) \<and>
         set_trigger_delay B v s = (Inr (), s\<lparr>trigger_delay := PyFloat x\<rparr>) \<and>
         get_trigger_delay (s\<lparr>trigger_delay := PyFloat x\<rparr>) =
           (Inr (PyFloat x), s\<lparr>trigger_delay := PyFloat x\<rparr>) \<and>
         set_trigger_delay_auto w s = (Inr (), s\<lparr>trigger_delay_auto := PyBool (py_bool w)\<rparr>) \<and>
         get_trigger_delay_auto (s\<lparr>trigger_delay_auto := PyBool (py_bool w)\<rparr>) =
           (Inr (PyBool (py_bool w)), s\<lparr>trigger_delay_auto := PyBool (py_bool w)\<rparr>) \<and>
         set_trigger_source B u s = (Inr (), s\<lparr>trigger_source := PyStr (py_str B u)\<rparr>) \<and>
         get_trigger_source (s\<lparr>trigger_source := PyStr (py_str B u)\<rparr>) =
           (Inr (PyStr (py_str B u)), s\<lparr>trigger_source := PyStr (py_str B u)\<rparr>)"
proof -
  let ?s' = "snd (set_measurement_function f s)"
  have valid: "get_cache_valid ''measurement_function'' ?s'"
    and cached: "measurement_function ?s' = f"
    and ok: "fst (set_measurement_function f s) = Inr ()"
    using assms(1,2) by (auto simp add: set_measurement_function_accepts get_cache_valid_def)
  from valid have "get_measurement_function ?s' = (Inr (measurement_function ?s'), ?s')"
    by (simp add: get_measurement_function_cached)
  with cached have get: "get_measurement_function ?s' = (Inr f, ?s')" by simp
  have rest: "set_range B v s = (Inr (), s\<lparr>range_attr := PyFloat x\<rparr>)"
    "set_resolution B v s = (Inr (), s\<lparr>resolution := PyFloat x\<rparr>)"
    "set_trigger_delay B v s = (Inr (), s\<lparr>trigger_delay := PyFloat x\<rparr>)"
    using assms(3) by (simp_all add: set_range_def set_resolution_def set_trigger_delay_def)
  show ?thesis
    using valid cached ok get rest
    by (simp add: get_range_def get_resolution_def get_trigger_delay_def
        set_trigger_delay_auto_def get_trigger_delay_auto_def set_trigger_source_def
        get_trigger_source_def)
qed

theorem set_then_get_witness:
  "dict_get MeasurementFunctionMapping (PyStr ''dc_volts'') = Some ''volt'' \<and>
   write_ok (sample_driver False [] []) \<and>
   py_float sample_builtins (PyFloat 1) = Inr 1 \<and>
   fst (set_measurement_function (PyStr ''dc_volts'') (sample_driver False [] [])) = Inr () \<and>
   get_cache_valid ''measurement_function''
     (snd (set_measurement_function (PyStr ''dc_volts'') (sample_driver False [] []))) \<and>
   get_measurement_function
       (snd (set_measurement_function (PyStr ''dc_volts'') (sample_driver False [] []))) =
     (Inr (PyStr ''dc_volts''),
      snd (set_measurement_function (PyStr ''dc_volts'') (sample_driver False [] []))) \<and>
   set_range sample_builtins (PyFloat 1) (sample_driver False [] []) =
     (Inr (), (sample_driver False [] [])\<lparr>range_attr := PyFloat 1\<rparr>) \<and>
   get_range ((sample_driver False [] [])\<lparr>range_attr := PyFloat 1\<rparr>) =
     (Inr (PyFloat 1), (sample_driver False [] [])\<lparr>range_attr := PyFloat 1\<rparr>) \<and>
   set_trigger_delay_auto (PyInt 1) (sample_driver False [] []) =
     (Inr (), (sample_driver False [] [])\<lparr>trigger_delay_auto := PyBool True\<rparr>) \<and>
   set_trigger_source sample_builtins (PyStr ''bus'') (sample_driver False [] []) =
     (Inr (), (sample_driver False [] [])\<lparr>trigger_source := PyStr ''bus''\<rparr>)"
proof -
  have h1: "dict_get MeasurementFunctionMapping (PyStr ''dc_volts'') = Some ''volt''"
    by (simp add: MeasurementFunctionMapping_def)
  have h2: "py_float sample_builtins (PyFloat 1) = Inr 1"
    by (simp add: sample_builtins_def)
  have h3: "py_str sample_builtins (PyStr ''bus'') = ''bus''"
    by (simp add: sample_builtins_def)
  have h4: "write_ok (sample_driver False [] [])" by (simp add: sample_driver_def)
  then have h5: "driver_operation_simulate (sample_driver False [] []) \<or>
      write_ok (sample_driver False [] [])" by simp
  from set_then_get [OF h1 h5 h2, where w = "PyInt 1" and u = "PyStr ''bus''"] h1 h2 h3 h4
  show ?thesis by simp
qed

lemma fmt_d_5: "fmt_d 5 = ''5''"
  by code_simp

text \<open>
  After a reset, which clears every flag, setting \<open>range\<close> to 1.0 succeeds and the flag of
  \<open>range\<close> is still false. Setting \<open>trigger_source\<close> to the integer 5 succeeds and stores the
  string \<open>"5"\<close>, not the value given.
\<close>

theorem set_range_after_reset_not_valid:
  "get_cache_valid ''range'' (sample_driver False attribute_tags []) \<and>
   fst (set_range sample_builtins (PyFloat 1)
          (snd (utility_reset (sample_driver False attribute_tags [])))) = Inr () \<and>
   \<not> get_cache_valid ''range''
       (snd (set_range sample_builtins (PyFloat 1)
               (snd (utility_reset (sample_driver False attribute_tags []))))) \<and>
   fst (set_trigger_source sample_builtins (PyInt 5) (sample_driver False attribute_tags [])) =
     Inr () \<and>
   trigger_source
       (snd (set_trigger_source sample_builtins (PyInt 5)
               (sample_driver False attribute_tags []))) = PyStr ''5'' \<and>
   PyStr ''5'' \<noteq> PyInt 5"
  by (simp add: sample_driver_def attribute_tags_def utility_reset_def set_range_def
      sample_builtins_def get_cache_valid_def invalidate_all_attributes_def io_write_def
      set_trigger_source_def fmt_d_5)

subsection \<open>Reset\<close>

lemma load_id_string_trace:
  "\<not> driver_operation_simulate s \<Longrightarrow>
     trace (snd (load_id_string s)) = trace s @ [Ask ''*IDN?'']"
  by (simp add: load_id_string_def io_ask_def index_def Let_def set_cache_valid_def
      split: list.splits)

lemma get_identity_state:
  "\<not> get_cache_valid ''identity_instrument_manufacturer'' s \<Longrightarrow>
     snd (get_identity_instrument_manufacturer s) = snd (load_id_string s)"
  "\<not> get_cache_valid ''identity_instrument_model'' s \<Longrightarrow>
     snd (get_identity_instrument_model s) = snd (load_id_string s)"
  "\<not> get_cache_valid ''identity_instrument_firmware_revision'' s \<Longrightarrow>
     snd (get_identity_instrument_firmware_revision s) = snd (load_id_string s)"
  by (auto simp add: get_identity_instrument_manufacturer_def get_identity_instrument_model_def
      get_identity_instrument_firmware_revision_def split: prod.splits sum.splits)

text \<open>
  C4, as the code has it. Out of simulation mode and with a session that accepts the
  write, \<open>reset()\<close> writes the reset command and sets every validity flag to false, and
  does nothing else (it consumes no response). The
  next get of \<open>measurement_function\<close> or of one of the three identity attributes then makes
  exactly one transport query. The next get of \<open>range\<close>, \<open>auto_range\<close>, \<open>resolution\<close>,
  \<open>trigger_delay\<close>, \<open>trigger_delay_auto\<close> or \<open>trigger_source\<close> makes none: it returns the stored
  value and leaves the driver as it is.
\<close>

theorem reset_invalidates:
  assumes "\<not> driver_operation_simulate s"
    and "write_ok s"
  shows "utility_reset s =
           (Inr (), s\<lparr>trace := trace s @ [Write ''*RST''], cache_valid := (\<lambda>tag. False)\<rparr>) \<and>
         (let s' = snd (utility_reset s) in
            trace (snd (get_measurement_function s')) = trace s' @ [Ask '':sense:function?''] \<and>
            trace (snd (get_identity_instrument_manufacturer s')) = trace s' @ [Ask ''*IDN?''] \<and>
            trace (snd (get_identity_instrument_model s')) = trace s' @ [Ask ''*IDN?''] \<and>
            trace (snd (get_identity_instrument_firmware_revision s')) =
              trace s' @ [Ask ''*IDN?''] \<and>
            get_range s' = (Inr (range_attr s), s') \<and>
            get_auto_range s' = (Inr (auto_range s), s') \<and>
            get_resolution s' = (Inr (resolution s), s') \<and>
            get_trigger_delay s' = (Inr (trigger_delay s), s') \<and>
            get_trigger_delay_auto s' = (Inr (trigger_delay_auto s), s') \<and>
            get_trigger_source s' = (Inr (trigger_source s), s'))"
proof -
  let ?s' = "s\<lparr>trace := trace s @ [Write ''*RST''], cache_valid := (\<lambda>tag. False)\<rparr>"
  have reset: "utility_reset s = (Inr (), ?s')"
    using assms by (simp add: utility_reset_def invalidate_all_attributes_def io_write_def)
  have sim: "\<not> driver_operation_simulate ?s'" using assms(1) by simp
  have inv: "\<not> get_cache_valid tag ?s'" for tag by (simp add: get_cache_valid_def)
  have mf: "trace (snd (get_measurement_function ?s')) = trace ?s' @ [Ask '':sense:function?'']"
    unfolding get_measurement_function_query [OF sim inv]
    by (simp split: list.splits)
  have idn: "trace (snd (load_id_string ?s')) = trace ?s' @ [Ask ''*IDN?'']"
    using sim by (rule load_id_string_trace)
  have id1: "trace (snd (get_identity_instrument_manufacturer ?s')) = trace ?s' @ [Ask ''*IDN?'']"
    using idn inv get_identity_state(1) [of ?s'] by simp
  have id2: "trace (snd (get_identity_instrument_model ?s')) = trace ?s' @ [Ask ''*IDN?'']"
    using idn inv get_identity_state(2) [of ?s'] by simp
  have id3: "trace (snd (get_identity_instrument_firmware_revision ?s')) =
               trace ?s' @ [Ask ''*IDN?'']"
    using idn inv get_identity_state(3) [of ?s'] by simp
  show ?thesis
    unfolding reset Let_def snd_conv
    using mf id1 id2 id3
    by (simp add: get_range_def get_auto_range_def get_resolution_def get_trigger_delay_def
        get_trigger_delay_auto_def get_trigger_source_def)
qed

theorem reset_invalidates_witness:
  "\<not> driver_operation_simulate (sample_driver False attribute_tags [''volt'']) \<and>
   write_ok (sample_driver False attribute_tags [''volt'']) \<and>
   fst (utility_reset (sample_driver False attribute_tags [''volt''])) = Inr () \<and>
   trace (snd (utility_reset (sample_driver False attribute_tags [''volt'']))) =
     [Write ''*RST''] \<and>
   replies (snd (utility_reset (sample_driver False attribute_tags [''volt'']))) = [''volt''] \<and>
   \<not> get_cache_valid ''measurement_function''
       (snd (utility_reset (sample_driver False attribute_tags [''volt'']))) \<and>
   trace (snd (get_measurement_function
                 (snd (utility_reset (sample_driver False attribute_tags [''volt''])))))
     = [Write ''*RST'', Ask '':sense:function?''] \<and>
   trace (snd (get_identity_instrument_model
                 (snd (utility_reset (sample_driver False attribute_tags [''volt''])))))
     = [Write ''*RST'', Ask ''*IDN?''] \<and>
   fst (get_range (snd (utility_reset (sample_driver False attribute_tags [''volt''])))) =
     Inr (PyFloat 0) \<and>
   trace (snd (get_range (snd (utility_reset (sample_driver False attribute_tags [''volt''])))))
     = [Write ''*RST'']"
proof -
  let ?s = "sample_driver False attribute_tags [''volt'']"
  have h: "\<not> driver_operation_simulate ?s" by (simp add: sample_driver_def)
  have w: "write_ok ?s" by (simp add: sample_driver_def)
  have s: "trace ?s = []" "replies ?s = [''volt'']" "range_attr ?s = PyFloat 0"
    by (simp_all add: sample_driver_def)
  note R = reset_invalidates [OF h w]
  have r: "utility_reset ?s =
      (Inr (), ?s\<lparr>trace := trace ?s @ [Write ''*RST''], cache_valid := (\<lambda>tag. False)\<rparr>)"
    by (rule conjunct1 [OF R])
  show ?thesis
    using conjunct2 [OF R] h w s unfolding r Let_def snd_conv fst_conv
    by (simp add: get_cache_valid_def)
qed

text \<open>
  When the session refuses the write, the reset fails with \<open>TransportError\<close> after the
  attempt and the validity flags stay as they were.
\<close>

lemma reset_write_fails:
  "\<not> driver_operation_simulate s \<Longrightarrow> \<not> write_ok s \<Longrightarrow>
     utility_reset s = (Inl TransportError, s\<lparr>trace := trace s @ [Write ''*RST'']\<rparr>)"
  by (simp add: utility_reset_def io_write_def)

text \<open>
  \<open>range\<close> is valid, then reset: the next get of \<open>range\<close> makes no transport call.
\<close>

theorem get_range_after_reset_no_query:
  "\<not> driver_operation_simulate (sample_driver False attribute_tags []) \<and>
   get_cache_valid ''range'' (sample_driver False attribute_tags []) \<and>
   \<not> get_cache_valid ''range'' (snd (utility_reset (sample_driver False attribute_tags []))) \<and>
   transport_calls (snd (get_range (snd (utility_reset (sample_driver False attribute_tags [])))))
     = transport_calls (snd (utility_reset (sample_driver False attribute_tags [])))"
  by (simp add: sample_driver_def attribute_tags_def utility_reset_def get_range_def
      get_cache_valid_def invalidate_all_attributes_def io_write_def)

subsection \<open>Transport writes of the setters\<close>

text \<open>
  C5, as the code has it. Out of simulation mode, a set of \<open>measurement_function\<close> to a value
  outside its table fails with \<open>ValueNotSupportedException\<close> and issues no transport write;
  to a value of its table it issues exactly one transport write, and it succeeds when the
  session accepts that write and fails with \<open>TransportError\<close> when it does not. A set of
  \<open>range\<close>, \<open>auto_range\<close>, \<open>resolution\<close>, \<open>trigger_delay\<close>, \<open>trigger_delay_auto\<close> or \<open>trigger_source\<close>
  issues no transport write, whether it succeeds or fails.
\<close>

theorem set_transport_writes:
  assumes "\<not> driver_operation_simulate s"
  shows "fst (set_measurement_function f s) =
           (if dict_get MeasurementFunctionMapping f = None then Inl ValueNotSupportedException
            else if write_ok s then Inr ()
            else Inl TransportError) \<and>
         transport_writes (snd (set_measurement_function f s)) =
           (if dict_get MeasurementFunctionMapping f = None then transport_writes s
            else transport_writes s + 1) \<and>
         transport_writes (snd (set_range B v s)) = transport_writes s \<and>
         transport_writes (snd (set_auto_range v s)) = transport_writes s \<and>
         transport_writes (snd (set_resolution B v s)) = transport_writes s \<and>
         transport_writes (snd (set_trigger_delay B v s)) = transport_writes s \<and>
         transport_writes (snd (set_trigger_delay_auto v s)) = transport_writes s \<and>
         transport_writes (snd (set_trigger_source B v s)) = transport_writes s"
proof -
  have others: "transport_writes (snd (set_range B v s)) = transport_writes s"
    "transport_writes (snd (set_auto_range v s)) = transport_writes s"
    "transport_writes (snd (set_resolution B v s)) = transport_writes s"
    "transport_writes (snd (set_trigger_delay B v s)) = transport_writes s"
    "transport_writes (snd (set_trigger_delay_auto v s)) = transport_writes s"
    "transport_writes (snd (set_trigger_source B v s)) = transport_writes s"
    by (simp_all add: set_range_def set_resolution_def set_trigger_delay_def
        set_trigger_delay_auto_def set_trigger_source_def set_auto_range_always_fails
        transport_writes_def split: sum.splits)
  show ?thesis
  proof (cases "dict_get MeasurementFunctionMapping f")
    case None
    then have "set_measurement_function f s = (Inl ValueNotSupportedException, s)"
      by (rule set_measurement_function_rejects)
    with None others show ?thesis by simp
  next
    case (Some tok)
    show ?thesis
    proof (cases "write_ok s")
      case True
      with Some assms have "set_measurement_function f s =
          (Inr (),
           s\<lparr>trace := trace s @ [Write ('':sense:function '' @ tok)],
             measurement_function := f,
             cache_valid := (cache_valid s)(''measurement_function'' := True)\<rparr>)"
        by (simp add: set_measurement_function_accepts)
      with Some True others show ?thesis by (simp add: transport_writes_def)
    next
      case False
      with Some assms have "set_measurement_function f s =
          (Inl TransportError, s\<lparr>trace := trace s @ [Write ('':sense:function '' @ tok)]\<rparr>)"
        by (simp add: set_measurement_function_accepts)
      with Some False others show ?thesis by (simp add: transport_writes_def)
    qed
  qed
qed

theorem set_transport_writes_witness:
  "\<not> driver_operation_simulate (sample_driver False attribute_tags []) \<and>
   write_ok (sample_driver False attribute_tags []) \<and>
   fst (set_measurement_function (PyStr ''dc_volts'') (sample_driver False attribute_tags [])) =
     Inr () \<and>
   transport_writes
     (snd (set_measurement_function (PyStr ''dc_volts'') (sample_driver False attribute_tags [])))
     = 1 \<and>
   fst (set_measurement_function (PyStr ''bogus'') (sample_driver False attribute_tags [])) =
     Inl ValueNotSupportedException \<and>
   transport_writes
     (snd (set_measurement_function (PyStr ''bogus'') (sample_driver False attribute_tags [])))
     = 0 \<and>
   transport_writes
     (snd (set_range sample_builtins (PyFloat 1) (sample_driver False attribute_tags []))) = 0"
proof -
  let ?s = "sample_driver False attribute_tags []"
  have h: "\<not> driver_operation_simulate ?s" by (simp add: sample_driver_def)
  have z: "transport_writes ?s = 0" by (simp add: sample_driver_def transport_writes_def)
  have w: "write_ok ?s" by (simp add: sample_driver_def)
  have k1: "dict_get MeasurementFunctionMapping (PyStr ''dc_volts'') \<noteq> None"
    by (simp add: MeasurementFunctionMapping_def)
  have k2: "dict_get MeasurementFunctionMapping (PyStr ''bogus'') = None"
    by (simp add: MeasurementFunctionMapping_def)
  from set_transport_writes [OF h, where f = "PyStr ''dc_volts''" and B = sample_builtins
      and v = "PyFloat 1"]
    set_transport_writes [OF h, where f = "PyStr ''bogus''" and B = sample_builtins
      and v = "PyFloat 1"] h z w k1 k2
  show ?thesis by simp
qed

text \<open>
  Setting \<open>range\<close> to 1.0 out of simulation mode succeeds and issues no transport write.
\<close>

theorem set_range_no_write:
  "\<not> driver_operation_simulate (sample_driver False attribute_tags []) \<and>
   fst (set_range sample_builtins (PyFloat 1) (sample_driver False attribute_tags [])) = Inr () \<and>
   transport_writes
       (snd (set_range sample_builtins (PyFloat 1) (sample_driver False attribute_tags [])))
     = transport_writes (sample_driver False attribute_tags [])"
  by (simp add: sample_driver_def set_range_def sample_builtins_def transport_writes_def)

end
